theory Spec2Isabelle
  imports Complex_Main "HOL-Library.AList" "HOL-Library.Sublist"
begin

section \<open>Record sets and the dataframe built from them\<close>

text \<open>
  A cell of a record is a scalar: a number, a string (timestamps are ISO strings), or the
  missing value that pandas writes as NaN. A number stands for its value, so that the
  equality of two \<open>Num\<close> cells is Python's \<open>==\<close> on ints and finite floats.
  A record is a Python dict, kept as the association list of its items in insertion order.
\<close>

datatype cell = Num rat | Str string | NaN

type_synonym row = "(string \<times> cell) list"

datatype error = TypeError | ValueError | AttributeError

text \<open>
  A dataframe has its column labels and, for every row, the cells of that row in column
  order. The operations of pandas used by the source (boolean indexing, \<open>copy\<close>,
  \<open>nlargest\<close>, \<open>nsmallest\<close>, \<open>select_dtypes\<close>) return a new frame and leave
  their argument alone, so a frame is a value.
\<close>

record dataframe =
  columns :: "string list"
  body :: "cell list list"

text \<open>The labels of \<open>pd.DataFrame(data)\<close>: the keys of the records, each at its first occurrence.\<close>

definition add_key :: "'a \<Rightarrow> 'a list \<Rightarrow> 'a list" where
  "add_key k acc = (if k \<in> set acc then acc else acc @ [k])"

definition collect_keys :: "row list \<Rightarrow> string list" where
  "collect_keys data = fold add_key (concat (map (map fst) data)) []"

text \<open>\<open>row.get(c, NaN)\<close>: a key that a record lacks is filled with NaN.\<close>

definition get_cell :: "row \<Rightarrow> string \<Rightarrow> cell" where
  "get_cell r c = (case map_of r c of Some v \<Rightarrow> v | None \<Rightarrow> NaN)"

definition DataFrame :: "row list \<Rightarrow> dataframe" where
  "DataFrame data =
     (let cols = collect_keys data
      in \<lparr>columns = cols, body = map (\<lambda>r. map (get_cell r) cols) data\<rparr>)"

text \<open>\<open>df.to_dict('records')\<close>: one dict per row, keyed by the column labels.\<close>

definition to_records :: "dataframe \<Rightarrow> row list" where
  "to_records d = map (\<lambda>vals. zip (columns d) vals) (body d)"

text \<open>The cell of a row of the frame under a label, \<open>df[c]\<close> read row by row.\<close>

definition cell_at :: "string list \<Rightarrow> cell list \<Rightarrow> string \<Rightarrow> cell" where
  "cell_at cols vals c = get_cell (zip cols vals) c"

definition column :: "dataframe \<Rightarrow> string \<Rightarrow> cell list" where
  "column d c = map (\<lambda>vals. cell_at (columns d) vals c) (body d)"

text \<open>\<open>df[mask]\<close>: the rows whose mask entry is true, in their order.\<close>

definition select_rows :: "(cell list \<Rightarrow> bool) \<Rightarrow> dataframe \<Rightarrow> dataframe" where
  "select_rows keep d = d\<lparr>body := filter keep (body d)\<rparr>"

definition df_copy :: "dataframe \<Rightarrow> dataframe" where
  "df_copy d = d"

text \<open>
  A column is numeric (dtype int64 or float64) when no cell of it is a string; a column
  holding a string has dtype object.
\<close>

fun is_number :: "cell \<Rightarrow> bool" where
  "is_number (Str s) = False"
| "is_number c = True"

definition numeric_column :: "dataframe \<Rightarrow> string \<Rightarrow> bool" where
  "numeric_column d c = list_all is_number (column d c)"

text \<open>\<open>df.select_dtypes(include=[np.number]).columns\<close>\<close>

definition numeric_cols :: "dataframe \<Rightarrow> string list" where
  "numeric_cols d = filter (numeric_column d) (columns d)"

section \<open>The analytics engine\<close>

record analytics =
  df :: dataframe
  original_data :: "row list"

definition DataAnalytics :: "row list \<Rightarrow> analytics" where
  "DataAnalytics data = \<lparr>df = DataFrame data, original_data = data\<rparr>"

subsection \<open>filter_data\<close>

text \<open>
  A condition value is a scalar, compared with \<open>==\<close>, or a list or tuple, tested with
  \<open>isin\<close>. NaN equals nothing under \<open>==\<close>; \<open>isin\<close> matches a NaN cell against a NaN
  in the list.
\<close>

datatype condition = Scalar cell | Values "cell list"

fun py_eq :: "cell \<Rightarrow> cell \<Rightarrow> bool" where
  "py_eq (Num x) (Num y) = (x = y)"
| "py_eq (Str s) (Str t) = (s = t)"
| "py_eq a b = False"

definition isin :: "cell \<Rightarrow> cell list \<Rightarrow> bool" where
  "isin a vs = (a \<in> set vs)"

fun matches :: "condition \<Rightarrow> cell \<Rightarrow> bool" where
  "matches (Values vs) a = isin a vs"
| "matches (Scalar v) a = py_eq a v"

text \<open>One turn of the loop over \<open>conditions.items()\<close>.\<close>

definition filter_step :: "string \<times> condition \<Rightarrow> dataframe \<Rightarrow> dataframe" where
  "filter_step cv filtered_df =
     (case cv of (col, value) \<Rightarrow>
        if col \<in> set (columns filtered_df)
        then select_rows (\<lambda>vals. matches value (cell_at (columns filtered_df) vals col)) filtered_df
        else filtered_df)"

definition filter_data ::
    "analytics \<Rightarrow> (string \<times> condition) list \<Rightarrow> (error + row list) \<times> analytics" where
  "filter_data self conditions =
     (let filtered_df = fold filter_step conditions (df_copy (df self))
      in (Inr (to_records filtered_df), self))"






subsection \<open>The numerics of pandas\<close>

text \<open>
  The floating-point results of pandas (mean, median, standard deviation, quantiles, named
  aggregations, correlations), the dtype names and Python's rendering of a number in an
  f-string are not computed here: they are taken as given functions. A statistic of a
  numeric column is a function of its numbers, NaN skipped; it is NaN when pandas has no
  value (as the standard deviation of a single number). A named aggregation can raise.
\<close>

record pandas_lib =
  lib_mean :: "rat list \<Rightarrow> cell"
  lib_median :: "rat list \<Rightarrow> cell"
  lib_std :: "rat list \<Rightarrow> cell"
  lib_quantile :: "rat list \<Rightarrow> rat \<Rightarrow> cell"
  lib_agg :: "string \<Rightarrow> cell list \<Rightarrow> error + cell"
  lib_corr :: "dataframe \<Rightarrow> dataframe"
  lib_dtype :: "cell list \<Rightarrow> string"
  lib_str :: "rat \<Rightarrow> string"

fun numbers :: "cell list \<Rightarrow> rat list" where
  "numbers [] = []"
| "numbers (Num x # cs) = x # numbers cs"
| "numbers (c # cs) = numbers cs"

definition col_min :: "rat list \<Rightarrow> cell" where
  "col_min xs = (case xs of [] \<Rightarrow> NaN | x # ys \<Rightarrow> Num (fold min ys x))"

definition col_max :: "rat list \<Rightarrow> cell" where
  "col_max xs = (case xs of [] \<Rightarrow> NaN | x # ys \<Rightarrow> Num (fold max ys x))"

text \<open>\<open>d[k] = v\<close> on a dict: a new key goes last, a known key keeps its place.\<close>

definition dict_set :: "'k \<Rightarrow> 'v \<Rightarrow> ('k \<times> 'v) list \<Rightarrow> ('k \<times> 'v) list" where
  "dict_set k v d = AList.update k v d"

subsection \<open>get_summary_statistics\<close>

definition column_summary :: "pandas_lib \<Rightarrow> dataframe \<Rightarrow> string \<Rightarrow> row" where
  "column_summary L d col =
     (let xs = numbers (column d col)
      in [(''mean'', lib_mean L xs),
          (''median'', lib_median L xs),
          (''std'', lib_std L xs),
          (''min'', col_min xs),
          (''max'', col_max xs),
          (''count'', Num (of_nat (length xs)))])"

definition get_summary_statistics ::
    "pandas_lib \<Rightarrow> analytics \<Rightarrow> (error + (string \<times> row) list) \<times> analytics" where
  "get_summary_statistics L self =
     (let numeric_cols = numeric_cols (df self);
          summary = fold (\<lambda>col summary. dict_set col (column_summary L (df self) col) summary)
                      numeric_cols []
      in (Inr summary, self))"

subsection \<open>get_categorical_distribution\<close>

text \<open>
  \<open>value_counts()\<close>: every value of the column other than NaN with the number of its
  occurrences, the most frequent first.
\<close>

definition value_counts :: "cell list \<Rightarrow> (cell \<times> nat) list" where
  "value_counts col =
     (let vals = filter (\<lambda>v. v \<noteq> NaN) col
      in sort_key (\<lambda>(v, k). - int k) (map (\<lambda>v. (v, count_list vals v)) (fold add_key vals [])))"

definition get_categorical_distribution ::
    "analytics \<Rightarrow> string \<Rightarrow> (error + (cell \<times> nat) list) \<times> analytics" where
  "get_categorical_distribution self col =
     (if col \<notin> set (columns (df self)) then (Inr [], self)
      else (Inr (value_counts (column (df self) col)), self))"

subsection \<open>get_correlation_matrix\<close>

definition select_dtypes_number :: "dataframe \<Rightarrow> dataframe" where
  "select_dtypes_number d =
     \<lparr>columns = numeric_cols d,
      body = map (\<lambda>vals. map (cell_at (columns d) vals) (numeric_cols d)) (body d)\<rparr>"

definition df_empty :: "dataframe \<Rightarrow> bool" where
  "df_empty d = (columns d = [] \<or> body d = [])"

definition get_correlation_matrix ::
    "pandas_lib \<Rightarrow> analytics \<Rightarrow> dataframe option \<times> analytics" where
  "get_correlation_matrix L self =
     (let numeric_df = select_dtypes_number (df self)
      in if df_empty numeric_df then (None, self)
         else (Some (lib_corr L numeric_df), self))"

subsection \<open>aggregate_by_category\<close>

text \<open>
  \<open>groupby(category_col)[value_col].agg(agg_func)\<close>: one group for each value of the
  category column other than NaN, holding the cells of the value column of its rows; the
  named aggregation is applied to each group, and the first one that raises ends the call.
\<close>

fun agg_groups ::
    "(cell list \<Rightarrow> error + cell) \<Rightarrow> (cell \<times> cell list) list \<Rightarrow> error + (cell \<times> cell) list" where
  "agg_groups f [] = Inr []"
| "agg_groups f ((k, vs) # gs) =
     (case f vs of
        Inl e \<Rightarrow> Inl e
      | Inr a \<Rightarrow> (case agg_groups f gs of Inl e \<Rightarrow> Inl e | Inr rest \<Rightarrow> Inr ((k, a) # rest)))"

definition groups :: "dataframe \<Rightarrow> string \<Rightarrow> string \<Rightarrow> (cell \<times> cell list) list" where
  "groups d category_col value_col =
     map (\<lambda>k. (k, map (\<lambda>vals. cell_at (columns d) vals value_col)
                    (filter (\<lambda>vals. cell_at (columns d) vals category_col = k) (body d))))
       (fold add_key (filter (\<lambda>v. v \<noteq> NaN) (column d category_col)) [])"

definition aggregate_by_category ::
    "pandas_lib \<Rightarrow> analytics \<Rightarrow> string \<Rightarrow> string \<Rightarrow> string
       \<Rightarrow> (error + (cell \<times> cell) list) \<times> analytics" where
  "aggregate_by_category L self category_col value_col agg_func =
     (if category_col \<notin> set (columns (df self)) \<or> value_col \<notin> set (columns (df self))
      then (Inr [], self)
      else (agg_groups (lib_agg L agg_func) (groups (df self) category_col value_col), self))"

subsection \<open>get_top_n\<close>

text \<open>
  \<open>nlargest(n, column)\<close> and \<open>nsmallest(n, column)\<close>: the first \<open>n\<close> rows in
  descending (ascending) order of the column, rows of equal value in their order of
  appearance, rows with NaN in the column last; no row when \<open>n \<le> 0\<close>. On a column of
  dtype object both raise TypeError.
\<close>

fun num_val :: "cell \<Rightarrow> rat" where
  "num_val (Num x) = x"
| "num_val c = 0"

definition ordered_rows :: "bool \<Rightarrow> string \<Rightarrow> dataframe \<Rightarrow> cell list list" where
  "ordered_rows ascending c d =
     sort_key (\<lambda>vals. if ascending then num_val (cell_at (columns d) vals c)
                       else - num_val (cell_at (columns d) vals c))
       (filter (\<lambda>vals. cell_at (columns d) vals c \<noteq> NaN) (body d))
     @ filter (\<lambda>vals. cell_at (columns d) vals c = NaN) (body d)"

definition nlargest :: "int \<Rightarrow> string \<Rightarrow> dataframe \<Rightarrow> error + dataframe" where
  "nlargest n c d =
     (if \<not> numeric_column d c then Inl TypeError
      else Inr (d\<lparr>body := take (nat n) (ordered_rows False c d)\<rparr>))"

definition nsmallest :: "int \<Rightarrow> string \<Rightarrow> dataframe \<Rightarrow> error + dataframe" where
  "nsmallest n c d =
     (if \<not> numeric_column d c then Inl TypeError
      else Inr (d\<lparr>body := take (nat n) (ordered_rows True c d)\<rparr>))"

definition get_top_n ::
    "analytics \<Rightarrow> string \<Rightarrow> int \<Rightarrow> bool \<Rightarrow> (error + row list) \<times> analytics" where
  "get_top_n self col n ascending =
     (if col \<notin> set (columns (df self)) then (Inr [], self)
      else (case (if \<not> ascending then nlargest n col (df self) else nsmallest n col (df self)) of
              Inl e \<Rightarrow> (Inl e, self)
            | Inr top_df \<Rightarrow> (Inr (to_records top_df), self)))"



subsection \<open>get_percentiles\<close>

text \<open>
  \<open>Series.quantile(q)\<close> first checks that \<open>q\<close> lies in [0, 1] (ValueError), and raises
  TypeError on a column of dtype object.
\<close>

definition quantile :: "pandas_lib \<Rightarrow> dataframe \<Rightarrow> string \<Rightarrow> rat \<Rightarrow> error + cell" where
  "quantile L d c q =
     (if q < 0 \<or> 1 < q then Inl ValueError
      else if \<not> numeric_column d c then Inl TypeError
      else Inr (lib_quantile L (numbers (column d c)) q))"

fun percentile_loop ::
    "pandas_lib \<Rightarrow> dataframe \<Rightarrow> string \<Rightarrow> rat list \<Rightarrow> row \<Rightarrow> error + row" where
  "percentile_loop L d c [] result = Inr result"
| "percentile_loop L d c (p # ps) result =
     (case quantile L d c (p / 100) of
        Inl e \<Rightarrow> Inl e
      | Inr v \<Rightarrow> percentile_loop L d c ps (dict_set (''p'' @ lib_str L p) v result))"

definition get_percentiles ::
    "pandas_lib \<Rightarrow> analytics \<Rightarrow> string \<Rightarrow> rat list option \<Rightarrow> (error + row) \<times> analytics" where
  "get_percentiles L self col percentiles =
     (let percentiles = (case percentiles of None \<Rightarrow> [25, 50, 75, 90, 95, 99] | Some ps \<Rightarrow> ps)
      in if col \<notin> set (columns (df self)) then (Inr [], self)
         else (percentile_loop L (df self) col percentiles [], self))"

subsection \<open>get_data_quality_report\<close>

record quality_report =
  total_rows :: nat
  total_columns :: nat
  missing_values :: "(string \<times> nat) list"
  duplicate_rows :: nat
  column_types :: "(string \<times> string) list"

definition get_data_quality_report ::
    "pandas_lib \<Rightarrow> analytics \<Rightarrow> quality_report \<times> analytics" where
  "get_data_quality_report L self =
     (\<lparr>total_rows = length (body (df self)),
       total_columns = length (columns (df self)),
       missing_values =
         map (\<lambda>c. (c, length (filter (\<lambda>v. v = NaN) (column (df self) c)))) (columns (df self)),
       duplicate_rows = length (body (df self)) - length (remdups (body (df self))),
       column_types = map (\<lambda>c. (c, lib_dtype L (column (df self) c))) (columns (df self))\<rparr>,
      self)"

section \<open>The mock data generator\<close>

text \<open>
  Python's \<open>random\<close> module is a global generator. Its state and its primitives are taken as
  given: seeding, \<open>_randbelow(n)\<close> (behind \<open>random.choice\<close>), \<open>uniform(a, b)\<close> and
  \<open>randint(a, b)\<close>, each a function of the state that returns the draw and the next
  state; so is \<open>round(x, ndigits)\<close> on a float.
\<close>

record 'g random_lib =
  rnd_seed :: "int \<Rightarrow> 'g"
  rnd_below :: "nat \<Rightarrow> 'g \<Rightarrow> nat \<times> 'g"
  rnd_uniform :: "rat \<Rightarrow> rat \<Rightarrow> 'g \<Rightarrow> rat \<times> 'g"
  rnd_randint :: "int \<Rightarrow> int \<Rightarrow> 'g \<Rightarrow> int \<times> 'g"
  py_round :: "rat \<Rightarrow> nat \<Rightarrow> rat"

definition choice :: "'g random_lib \<Rightarrow> 'a list \<Rightarrow> 'g \<Rightarrow> 'a \<times> 'g" where
  "choice R xs g = (case rnd_below R (length xs) g of (i, g') \<Rightarrow> (xs ! i, g'))"

subsection \<open>Dates\<close>

text \<open>
  A naive \<open>datetime\<close>: the proleptic Gregorian ordinal of its date (day 1 is 0001-01-01)
  and its time of day. \<open>datetime.now()\<close> is an input of the model. Adding a
  \<open>timedelta\<close> of whole days moves the ordinal; the clock is taken to read a date from
  year 2 on, so that no date below leaves the range of \<open>datetime\<close>.
\<close>

record datetime =
  ordinal :: int
  hour :: nat
  minute :: nat
  second :: nat
  microsecond :: nat

definition add_days :: "datetime \<Rightarrow> int \<Rightarrow> datetime" where
  "add_days t k = t\<lparr>ordinal := ordinal t + k\<rparr>"

definition days_before_month :: "nat list" where
  "days_before_month = [0, 0, 31, 59, 90, 120, 151, 181, 212, 243, 273, 304, 334]"

definition days_in_month :: "nat list" where
  "days_in_month = [0, 31, 28, 31, 30, 31, 30, 31, 31, 30, 31, 30, 31]"

text \<open>
  The year, month and day of an ordinal, computed as the \<open>datetime\<close> module does
  (entry 0 of the two tables is a placeholder that is never read).
\<close>

definition ord2ymd :: "int \<Rightarrow> nat \<times> nat \<times> nat" where
  "ord2ymd ord =
     (let n0 = nat (ord - 1);
          n400 = n0 div 146097; n1 = n0 mod 146097;
          n100 = n1 div 36524; n2 = n1 mod 36524;
          n4 = n2 div 1461; n3 = n2 mod 1461;
          ny = n3 div 365; n = n3 mod 365;
          year = n400 * 400 + 1 + n100 * 100 + n4 * 4 + ny
      in if ny = 4 \<or> n100 = 4 then (year - 1, 12, 31)
         else
           (let leapyear = (ny = 3 \<and> (n4 \<noteq> 24 \<or> n100 = 3));
                month = (n + 50) div 32;
                preceding = days_before_month ! month + (if 2 < month \<and> leapyear then 1 else 0)
            in if n < preceding
               then (let month' = month - 1;
                         preceding' = preceding
                            - (days_in_month ! month' + (if month' = 2 \<and> leapyear then 1 else 0))
                     in (year, month', n - preceding' + 1))
               else (year, month, n - preceding + 1)))"

text \<open>\<open>%0wd\<close>: a number in \<open>w\<close> decimal digits, zeros in front.\<close>

definition digit :: "nat \<Rightarrow> char" where
  "digit k = ''0123456789'' ! (k mod 10)"

definition zero_padded :: "nat \<Rightarrow> nat \<Rightarrow> string" where
  "zero_padded w k = map (\<lambda>i. digit (k div 10 ^ i)) (rev [0..<w])"

definition isoformat :: "datetime \<Rightarrow> string" where
  "isoformat t =
     (case ord2ymd (ordinal t) of (y, m, d) \<Rightarrow>
        zero_padded 4 y @ ''-'' @ zero_padded 2 m @ ''-'' @ zero_padded 2 d @ ''T''
        @ zero_padded 2 (hour t) @ '':'' @ zero_padded 2 (minute t) @ '':''
        @ zero_padded 2 (second t)
        @ (if microsecond t \<noteq> 0 then ''.'' @ zero_padded 6 (microsecond t) else ''''))"

subsection \<open>generate_grid_data\<close>

definition MockDataGenerator :: "'g random_lib \<Rightarrow> int \<Rightarrow> 'g" where
  "MockDataGenerator R seed = rnd_seed R seed"

definition categories :: "string list" where
  "categories = [''A'', ''B'', ''C'', ''D'', ''E'']"

definition regions :: "string list" where
  "regions = [''North'', ''South'', ''East'', ''West'', ''Central'']"

definition statuses :: "string list" where
  "statuses = [''Active'', ''Inactive'', ''Pending'', ''Completed'']"

text \<open>One turn of the loop: the draws are made in the order of the dict display.\<close>

definition grid_row :: "'g random_lib \<Rightarrow> datetime \<Rightarrow> nat \<Rightarrow> 'g \<Rightarrow> row \<times> 'g" where
  "grid_row R base_date i g0 =
     (case choice R categories g0 of (category, g1) \<Rightarrow>
      case choice R regions g1 of (region, g2) \<Rightarrow>
      case choice R statuses g2 of (status, g3) \<Rightarrow>
      case rnd_uniform R 10 1000 g3 of (val, g4) \<Rightarrow>
      case rnd_randint R 1 100 g4 of (quantity, g5) \<Rightarrow>
      case rnd_uniform R 0 100 g5 of (score, g6) \<Rightarrow>
      case rnd_randint R 0 365 g6 of (days, g7) \<Rightarrow>
      case choice R [''High'', ''Medium'', ''Low''] g7 of (priority, g8) \<Rightarrow>
      case rnd_uniform R (1 / 2) 1 g8 of (efficiency, g9) \<Rightarrow>
      case rnd_uniform R 100 5000 g9 of (cost, g10) \<Rightarrow>
      case rnd_uniform R 150 6000 g10 of (revenue, g11) \<Rightarrow>
        ([(''id'', Num (of_nat (i + 1))),
          (''category'', Str category),
          (''region'', Str region),
          (''status'', Str status),
          (''value'', Num (py_round R val 2)),
          (''quantity'', Num (of_int quantity)),
          (''score'', Num (py_round R score 2)),
          (''timestamp'', Str (isoformat (add_days base_date days))),
          (''priority'', Str priority),
          (''efficiency'', Num (py_round R efficiency 3)),
          (''cost'', Num (py_round R cost 2)),
          (''revenue'', Num (py_round R revenue 2))],
         g11))"

fun grid_rows :: "'g random_lib \<Rightarrow> datetime \<Rightarrow> nat list \<Rightarrow> row list \<Rightarrow> 'g \<Rightarrow> row list \<times> 'g" where
  "grid_rows R base_date [] data g = (data, g)"
| "grid_rows R base_date (i # is) data g =
     (case grid_row R base_date i g of (row, g') \<Rightarrow> grid_rows R base_date is (data @ [row]) g')"

definition generate_grid_data ::
    "'g random_lib \<Rightarrow> datetime \<Rightarrow> 'g \<Rightarrow> int \<Rightarrow> row list \<times> 'g" where
  "generate_grid_data R now g num_rows =
     (let base_date = add_days now (- 365)
      in grid_rows R base_date [0..<nat num_rows] [] g)"



section \<open>The fetcher\<close>

text \<open>
  An exception is known by the classes that the handlers test for and by its message.
  \<open>session.get\<close> is the network: for a URL, query parameters and a timeout it raises or
  returns a response, whose \<open>json()\<close> raises or returns the decoded body.
\<close>

record py_exception =
  is_request_exception :: bool
  is_json_decode_error :: bool
  message :: string

record 'j response =
  status_code :: int
  reason :: string
  json :: "py_exception + 'j"

type_synonym 'j session = "string \<Rightarrow> (string \<times> string) list option \<Rightarrow> int \<Rightarrow> py_exception + 'j response"

text \<open>\<open>raise_for_status()\<close>: HTTPError, a RequestException, for a status from 400 to 599.\<close>

definition raise_for_status :: "'j response \<Rightarrow> py_exception + unit" where
  "raise_for_status r =
     (if 400 \<le> status_code r \<and> status_code r < 600
      then Inl \<lparr>is_request_exception = True, is_json_decode_error = False, message = reason r\<rparr>
      else Inr ())"

definition rstrip_slash :: "string \<Rightarrow> string" where
  "rstrip_slash s = rev (dropWhile (\<lambda>c. c = CHR ''/'') (rev s))"

text \<open>
  The two handlers of \<open>fetch_data\<close>, in their order; an exception of neither class goes on
  to the caller. The result is paired with the lines printed.
\<close>

definition fetch_handlers :: "py_exception \<Rightarrow> (py_exception + 'j option) \<times> string list" where
  "fetch_handlers e =
     (if is_request_exception e then (Inr None, [''Error fetching data: '' @ message e])
      else if is_json_decode_error e then (Inr None, [''Error decoding JSON: '' @ message e])
      else (Inl e, []))"

definition request_url :: "string \<Rightarrow> string \<Rightarrow> string" where
  "request_url base_url endpoint = rstrip_slash (base_url @ ''/'' @ endpoint)"

definition fetch_data ::
    "'j session \<Rightarrow> string \<Rightarrow> string \<Rightarrow> (string \<times> string) list option \<Rightarrow> int
       \<Rightarrow> (py_exception + 'j option) \<times> string list" where
  "fetch_data get base_url endpoint params timeout =
     (let url = request_url base_url endpoint
      in case get url params timeout of
           Inl e \<Rightarrow> fetch_handlers e
         | Inr response \<Rightarrow>
             (case raise_for_status response of
                Inl e \<Rightarrow> fetch_handlers e
              | Inr u \<Rightarrow>
                  (case json response of
                     Inl e \<Rightarrow> fetch_handlers e
                   | Inr parsed \<Rightarrow> (Inr (Some parsed), []))))"

definition health_check :: "'j session \<Rightarrow> string \<Rightarrow> bool" where
  "health_check get base_url =
     (case get base_url None 5 of
        Inl e \<Rightarrow> False
      | Inr response \<Rightarrow> status_code response = 200)"

text \<open>A network error or a JSON decode error: an exception of one of the two classes handled.\<close>

definition network_or_decode_error :: "py_exception \<Rightarrow> bool" where
  "network_or_decode_error e = (is_request_exception e \<or> is_json_decode_error e)"

section \<open>The orchestrator\<close>

text \<open>
  The tool holds its flag, the fetcher's base URL, the loaded data and the analytics
  engine. Its surroundings are the network, the clock and the record list, if any, that
  \<open>fetch_grid_data()\<close> makes of the API's answer; the state of \<open>random\<close> is passed
  along with the tool.
\<close>

record tool =
  use_mock_data :: bool
  fetcher_base_url :: string
  data :: "row list option"
  analytics :: "analytics option"

record 'j surroundings =
  session_get :: "'j session"
  clock :: datetime
  fetched_grid :: "row list option"

definition default_base_url :: string where
  "default_base_url = ''https://omni-grid-2-0-architect-256533412071.us-west1.run.app''"

definition OmniGridAnalyticsTool :: "'g random_lib \<Rightarrow> bool \<Rightarrow> tool \<times> 'g" where
  "OmniGridAnalyticsTool R use_mock =
     (\<lparr>use_mock_data = use_mock, fetcher_base_url = default_base_url,
       data = None, analytics = None\<rparr>,
      MockDataGenerator R 42)"

text \<open>Python's truth value of \<open>self.data\<close>: neither None nor an empty list.\<close>

fun truthy :: "row list option \<Rightarrow> bool" where
  "truthy None = False"
| "truthy (Some rows) = (rows \<noteq> [])"

definition load_data ::
    "'g random_lib \<Rightarrow> 'j surroundings \<Rightarrow> tool \<Rightarrow> 'g \<Rightarrow> int \<Rightarrow> bool \<times> tool \<times> 'g" where
  "load_data R env self g num_records =
     (case
        (if use_mock_data self
         then (case generate_grid_data R (clock env) g num_records of
                 (rows, g') \<Rightarrow> (self\<lparr>data := Some rows\<rparr>, g'))
         else if \<not> health_check (session_get env) (fetcher_base_url self)
         then (case generate_grid_data R (clock env) g num_records of
                 (rows, g') \<Rightarrow> (self\<lparr>data := Some rows\<rparr>, g'))
         else (let self1 = self\<lparr>data := fetched_grid env\<rparr>
               in if truthy (data self1) then (self1, g)
                  else (case generate_grid_data R (clock env) g num_records of
                          (rows, g') \<Rightarrow> (self1\<lparr>data := Some rows\<rparr>, g'))))
      of (self2, g2) \<Rightarrow>
        (case data self2 of
           None \<Rightarrow> (False, self2, g2)
         | Some rows \<Rightarrow>
             if rows \<noteq> [] then (True, self2\<lparr>analytics := Some (DataAnalytics rows)\<rparr>, g2)
             else (False, self2, g2)))"

section \<open>Stand-ins to run the model on\<close>

text \<open>
  A small generator to run the model on: a linear congruential state, draws taken from it
  within the bounds asked for, rounding half up.
\<close>

definition lcg_next :: "nat \<Rightarrow> nat" where
  "lcg_next s = (75 * s + 74) mod 65537"

definition lcg :: "nat random_lib" where
  "lcg = \<lparr>rnd_seed = (\<lambda>seed. nat \<bar>seed\<bar>),
          rnd_below = (\<lambda>n s. (s mod n, lcg_next s)),
          rnd_uniform = (\<lambda>a b s. (a + (b - a) * (of_nat (s mod 1000) / 1000), lcg_next s)),
          rnd_randint = (\<lambda>a b s. (a + int (s mod nat (b - a + 1)), lcg_next s)),
          py_round = (\<lambda>x k. of_int \<lfloor>x * 10 ^ k + 1 / 2\<rfloor> / 10 ^ k)\<rparr>"

text \<open>
  A stand-in for the numerics of pandas, exact and much simplified: the mean, the middle
  and the rank-\<open>q\<close> element of the sorted numbers, no standard deviation, the
  aggregations \<open>count\<close> and \<open>sum\<close> only.
\<close>

definition exact_lib :: pandas_lib where
  "exact_lib =
     \<lparr>lib_mean = (\<lambda>xs. if xs = [] then NaN else Num (sum_list xs / of_nat (length xs))),
      lib_median = (\<lambda>xs. if xs = [] then NaN else Num (sort xs ! (length xs div 2))),
      lib_std = (\<lambda>xs. NaN),
      lib_quantile =
        (\<lambda>xs q. if xs = [] then NaN else Num (sort xs ! nat \<lfloor>q * of_nat (length xs - 1)\<rfloor>)),
      lib_agg =
        (\<lambda>name vs.
           if name = ''count'' then Inr (Num (of_nat (length (filter (\<lambda>v. v \<noteq> NaN) vs))))
           else if name = ''sum''
           then (if list_all is_number vs then Inr (Num (sum_list (numbers vs))) else Inl TypeError)
           else Inl AttributeError),
      lib_corr = (\<lambda>d. d),
      lib_dtype = (\<lambda>cs. if list_all is_number cs then ''float64'' else ''object''),
      lib_str = (\<lambda>x. zero_padded 2 (nat \<lfloor>x\<rfloor>))\<rparr>"

text \<open>A network on which every request fails to connect, and one that answers.\<close>

definition unreachable :: "nat session" where
  "unreachable url params timeout =
     Inl \<lparr>is_request_exception = True, is_json_decode_error = False,
          message = ''connection refused''\<rparr>"

definition answering :: "nat session" where
  "answering url params timeout =
     (if url = ''http://grid/metrics''
      then Inr \<lparr>status_code = 200, reason = ''OK'', json = Inr 7\<rparr>
      else if url = ''http://grid/broken''
      then Inr \<lparr>status_code = 200, reason = ''OK'',
                json = Inl \<lparr>is_request_exception = False, is_json_decode_error = True,
                           message = ''Expecting value''\<rparr>\<rparr>
      else Inr \<lparr>status_code = 404, reason = ''Not Found'', json = Inr 0\<rparr>)"

text \<open>A clock reading, and the surroundings of a tool that cannot reach the API.\<close>

definition a_clock :: datetime where
  "a_clock = \<lparr>ordinal = 739923, hour = 12, minute = 30, second = 45, microsecond = 123\<rparr>"

definition offline :: "nat surroundings" where
  "offline = \<lparr>session_get = unreachable, clock = a_clock, fetched_grid = None\<rparr>"

section \<open>Properties of the dataframe\<close>












lemma columns_select_rows [simp]: "columns (select_rows keep d) = columns d"
  by (simp add: select_rows_def)

lemma body_select_rows [simp]: "body (select_rows keep d) = filter keep (body d)"
  by (simp add: select_rows_def)

lemma columns_filter_step [simp]: "columns (filter_step cv d) = columns d"
  by (cases cv) (simp add: filter_step_def)


lemma columns_fold_filter_step [simp]: "columns (fold filter_step conditions d) = columns d"
  by (induction conditions arbitrary: d) simp_all






lemma cell_at_map: "c \<in> set cols \<Longrightarrow> cell_at cols (map f cols) c = f c"
  by (simp add: cell_at_def get_cell_def map_of_zip_map)







section \<open>Properties of the row selection of \<open>get_top_n\<close>\<close>


lemma set_ordered_rows: "set (ordered_rows ascending c d) = set (body d)"
  by (auto simp: ordered_rows_def)









section \<open>Properties of the analytics operations\<close>




lemma numeric_column_DataFrame:
  assumes "c \<in> set (columns (DataFrame recs))"
  shows "numeric_column (DataFrame recs) c = list_all (\<lambda>r. is_number (get_cell r c)) recs"
  using assms
  by (simp add: numeric_column_def column_def DataFrame_def Let_def list_all_iff cell_at_map)





section \<open>Properties of the mock data generator\<close>

lemma length_grid_rows:
  "length (fst (grid_rows R b ks acc g)) = length acc + length ks"
  by (induction ks arbitrary: acc g) (simp_all split: prod.splits)

lemma length_generate_grid_data:
  "length (fst (generate_grid_data R now g num_rows)) = nat num_rows"
  by (simp add: generate_grid_data_def length_grid_rows)








section \<open>Properties of the handlers of \<open>fetch_data\<close>\<close>

lemma fetch_handlers_caught:
  "network_or_decode_error e \<Longrightarrow>
   (fetch_handlers e :: (py_exception + 'j option) \<times> string list)
     = (Inr None, [(if is_request_exception e then ''Error fetching data: ''
                    else ''Error decoding JSON: '') @ message e])"
  by (auto simp: fetch_handlers_def network_or_decode_error_def)

lemma fetch_handlers_passed:
  "fst (fetch_handlers e :: (py_exception + 'j option) \<times> string list) = Inl x
     \<Longrightarrow> \<not> network_or_decode_error x"
  by (auto simp: fetch_handlers_def network_or_decode_error_def split: if_splits)

section \<open>Determinism of the mock data\<close>




section \<open>Filtering\<close>



section \<open>Top N\<close>




section \<open>Summary statistics\<close>



section \<open>Absent columns\<close>





section \<open>Which operations raise\<close>




section \<open>Loading data when the API is down\<close>

text \<open>
  Claim C5, as stated, has \<open>load_data\<close> return True whenever the health check fails and
  mock data is not asked for. Asked for no records, the generator returns the empty list,
  which \<open>if self.data\<close> takes for no data: \<open>load_data\<close> returns False and sets up no
  analytics engine.
\<close>

theorem load_data_no_records_counterexample:
  "\<not> use_mock_data (fst (OmniGridAnalyticsTool lcg False))
   \<and> \<not> health_check (session_get offline)
         (fetcher_base_url (fst (OmniGridAnalyticsTool lcg False)))
   \<and> load_data lcg offline
        (fst (OmniGridAnalyticsTool lcg False)) (snd (OmniGridAnalyticsTool lcg False)) 0
     = (False, (fst (OmniGridAnalyticsTool lcg False))\<lparr>data := Some []\<rparr>, 42)"
  by (simp add: OmniGridAnalyticsTool_def MockDataGenerator_def lcg_def health_check_def
      unreachable_def offline_def load_data_def generate_grid_data_def)

text \<open>
  Claim C5, amended. Whenever the health check of the fetcher returns False and
  \<open>load_data\<close> is called with \<open>use_mock_data=False\<close> for at least one record, it
  generates that many mock records with the fallback generator, stores them, sets up the
  analytics engine on them and returns True.
\<close>

theorem load_data_falls_back:
  assumes "\<not> use_mock_data self"
      and "\<not> health_check (session_get env) (fetcher_base_url self)"
      and "1 \<le> num_records"
  shows "\<exists>rows g'. generate_grid_data R (clock env) g num_records = (rows, g')
           \<and> length rows = nat num_records
           \<and> load_data R env self g num_records
               = (True, self\<lparr>data := Some rows, analytics := Some (DataAnalytics rows)\<rparr>, g')"
proof -
  obtain rows g' where gen: "generate_grid_data R (clock env) g num_records = (rows, g')"
    by (cases "generate_grid_data R (clock env) g num_records")
  with length_generate_grid_data [of R "clock env" g num_records]
  have len: "length rows = nat num_records" by simp
  with assms(3) have "rows \<noteq> []" by auto
  with assms(1,2) gen have "load_data R env self g num_records
      = (True, self\<lparr>data := Some rows, analytics := Some (DataAnalytics rows)\<rparr>, g')"
    by (simp add: load_data_def)
  with gen len show ?thesis by blast
qed

theorem load_data_falls_back_witness:
  "\<not> use_mock_data (fst (OmniGridAnalyticsTool lcg False))
   \<and> \<not> health_check (session_get offline)
         (fetcher_base_url (fst (OmniGridAnalyticsTool lcg False)))
   \<and> (1::int) \<le> 3
   \<and> (\<exists>rows g'. length rows = 3
         \<and> load_data lcg offline
              (fst (OmniGridAnalyticsTool lcg False)) (snd (OmniGridAnalyticsTool lcg False)) 3
            = (True,
               (fst (OmniGridAnalyticsTool lcg False))
                 \<lparr>data := Some rows, analytics := Some (DataAnalytics rows)\<rparr>,
               g'))"
proof -
  let ?tool = "fst (OmniGridAnalyticsTool lcg False)"
  have flag: "\<not> use_mock_data ?tool"
    by (simp add: OmniGridAnalyticsTool_def)
  have down: "\<not> health_check (session_get offline) (fetcher_base_url ?tool)"
    by (simp add: health_check_def offline_def unreachable_def)
  have some: "(1::int) \<le> 3"
    by simp
  from load_data_falls_back [OF flag down some, of lcg "snd (OmniGridAnalyticsTool lcg False)"]
  obtain rows g' where "length rows = nat 3"
      "load_data lcg offline ?tool (snd (OmniGridAnalyticsTool lcg False)) 3
         = (True, ?tool\<lparr>data := Some rows, analytics := Some (DataAnalytics rows)\<rparr>, g')"
    by blast
  then have "\<exists>rows g'. length rows = 3
         \<and> load_data lcg offline ?tool (snd (OmniGridAnalyticsTool lcg False)) 3
            = (True, ?tool\<lparr>data := Some rows, analytics := Some (DataAnalytics rows)\<rparr>, g')"
    by auto
  with flag down some show ?thesis by blast
qed

section \<open>The state of the engine\<close>

text \<open>
  Claim C9. Every query of \<open>DataAnalytics\<close> leaves the engine as it was: after
  \<open>get_summary_statistics\<close>, \<open>get_categorical_distribution\<close>,
  \<open>get_correlation_matrix\<close>, \<open>aggregate_by_category\<close>, \<open>get_top_n\<close>,
  \<open>filter_data\<close>, \<open>get_percentiles\<close> or \<open>get_data_quality_report\<close> the stored
  dataframe and the stored record list are the ones before the call.
\<close>

theorem queries_leave_state:
  "snd (get_summary_statistics L self) = self
   \<and> snd (get_categorical_distribution self col) = self
   \<and> snd (get_correlation_matrix L self) = self
   \<and> snd (aggregate_by_category L self cat val agg_func) = self
   \<and> snd (get_top_n self col n ascending) = self
   \<and> snd (filter_data self conditions) = self
   \<and> snd (get_percentiles L self col percentiles) = self
   \<and> snd (get_data_quality_report L self) = self"
  by (simp add: get_summary_statistics_def get_categorical_distribution_def
      get_correlation_matrix_def aggregate_by_category_def get_top_n_def filter_data_def
      get_percentiles_def get_data_quality_report_def Let_def split: sum.splits)

theorem queries_leave_state_witness:
  "df (snd (filter_data (DataAnalytics [[(''region'', Str ''North''), (''cost'', Num 10)], [(''region'', Str ''South''), (''cost'', Num 20)]]) [(''region'', Scalar (Str ''North''))]))
     = DataFrame [[(''region'', Str ''North''), (''cost'', Num 10)], [(''region'', Str ''South''), (''cost'', Num 20)]]
   \<and> original_data (snd (filter_data (DataAnalytics [[(''region'', Str ''North''), (''cost'', Num 10)], [(''region'', Str ''South''), (''cost'', Num 20)]]) [(''region'', Scalar (Str ''North''))]))
     = [[(''region'', Str ''North''), (''cost'', Num 10)], [(''region'', Str ''South''), (''cost'', Num 20)]]
   \<and> snd (get_top_n (DataAnalytics [[(''region'', Str ''North''), (''cost'', Num 10)], [(''region'', Str ''South''), (''cost'', Num 20)]]) ''cost'' 1 False) = DataAnalytics [[(''region'', Str ''North''), (''cost'', Num 10)], [(''region'', Str ''South''), (''cost'', Num 20)]]
   \<and> snd (aggregate_by_category exact_lib (DataAnalytics [[(''region'', Str ''North''), (''cost'', Num 10)], [(''region'', Str ''South''), (''cost'', Num 20)]]) ''region'' ''cost'' ''sum'')
     = DataAnalytics [[(''region'', Str ''North''), (''cost'', Num 10)], [(''region'', Str ''South''), (''cost'', Num 20)]]"
  using queries_leave_state [of exact_lib "DataAnalytics [[(''region'', Str ''North''), (''cost'', Num 10)], [(''region'', Str ''South''), (''cost'', Num 20)]]" "''cost''" "''region''"
      "''cost''" "''sum''" 1 False "[(''region'', Scalar (Str ''North''))]" None]
  by (simp add: DataAnalytics_def)

section \<open>Fetching\<close>

text \<open>
  Claim C8. \<open>fetch_data\<close> returns the parsed JSON body when the request succeeds, the
  status is no error status and the body decodes. On a network error (the request raises a
  RequestException, or the status is an error status) and on a JSON decode error it prints
  one diagnostic line and returns None. No exception of these two classes reaches the
  caller.
\<close>

theorem fetch_data_outcomes:
  "(\<forall>response parsed.
      get (request_url base_url endpoint) params timeout = Inr response
      \<and> \<not> (400 \<le> status_code response \<and> status_code response < 600)
      \<and> json response = Inr parsed
      \<longrightarrow> fetch_data get base_url endpoint params timeout = (Inr (Some parsed), []))
   \<and> (\<forall>e. network_or_decode_error e
        \<and> (get (request_url base_url endpoint) params timeout = Inl e
           \<or> (\<exists>response. get (request_url base_url endpoint) params timeout = Inr response
                 \<and> (raise_for_status response = Inl e
                    \<or> raise_for_status response = Inr () \<and> json response = Inl e)))
      \<longrightarrow> fetch_data get base_url endpoint params timeout
            = (Inr None, [(if is_request_exception e then ''Error fetching data: ''
                           else ''Error decoding JSON: '') @ message e]))
   \<and> (\<forall>response.
        get (request_url base_url endpoint) params timeout = Inr response
        \<and> 400 \<le> status_code response \<and> status_code response < 600
      \<longrightarrow> fetch_data get base_url endpoint params timeout
            = (Inr None, [''Error fetching data: '' @ reason response]))
   \<and> (\<forall>e. fst (fetch_data get base_url endpoint params timeout) = Inl e
      \<longrightarrow> \<not> network_or_decode_error e)"
proof (intro conjI allI impI)
  fix response parsed
  assume "get (request_url base_url endpoint) params timeout = Inr response
      \<and> \<not> (400 \<le> status_code response \<and> status_code response < 600)
      \<and> json response = Inr parsed"
  then show "fetch_data get base_url endpoint params timeout = (Inr (Some parsed), [])"
    by (auto simp: fetch_data_def raise_for_status_def)
next
  fix e
  assume a: "network_or_decode_error e
        \<and> (get (request_url base_url endpoint) params timeout = Inl e
           \<or> (\<exists>response. get (request_url base_url endpoint) params timeout = Inr response
                 \<and> (raise_for_status response = Inl e
                    \<or> raise_for_status response = Inr () \<and> json response = Inl e)))"
  then have "fetch_data get base_url endpoint params timeout
      = (fetch_handlers e :: (py_exception + 'a option) \<times> string list)"
    by (auto simp: fetch_data_def)
  with a show "fetch_data get base_url endpoint params timeout
            = (Inr None, [(if is_request_exception e then ''Error fetching data: ''
                           else ''Error decoding JSON: '') @ message e])"
    by (simp add: fetch_handlers_caught)
next
  fix response
  assume "get (request_url base_url endpoint) params timeout = Inr response
        \<and> 400 \<le> status_code response \<and> status_code response < 600"
  then show "fetch_data get base_url endpoint params timeout
            = (Inr None, [''Error fetching data: '' @ reason response])"
    by (simp add: fetch_data_def raise_for_status_def fetch_handlers_def)
next
  fix e
  assume "fst (fetch_data get base_url endpoint params timeout) = Inl e"
  then show "\<not> network_or_decode_error e"
    by (auto simp: fetch_data_def Let_def split: sum.splits dest: fetch_handlers_passed)
qed

theorem fetch_data_outcomes_witness:
  "fetch_data answering ''http://grid'' ''metrics'' None 30 = (Inr (Some 7), [])
   \<and> fetch_data answering ''http://grid'' ''broken'' None 30
       = (Inr None, [''Error decoding JSON: Expecting value''])
   \<and> fetch_data answering ''http://grid/'' '''' None 30
       = (Inr None, [''Error fetching data: Not Found''])
   \<and> fetch_data unreachable ''http://grid'' ''metrics'' None 30
       = (Inr None, [''Error fetching data: connection refused''])"
proof -
  have 1: "fetch_data answering ''http://grid'' ''metrics'' None 30 = (Inr (Some 7), [])"
    using fetch_data_outcomes [of answering "''http://grid''" "''metrics''" None 30]
    by (simp add: answering_def request_url_def rstrip_slash_def)
  have 2: "fetch_data answering ''http://grid'' ''broken'' None 30
       = (Inr None, [''Error decoding JSON: Expecting value''])"
    using fetch_data_outcomes [of answering "''http://grid''" "''broken''" None 30]
    by (simp add: answering_def request_url_def rstrip_slash_def network_or_decode_error_def
        raise_for_status_def)
  have 3: "fetch_data answering ''http://grid/'' '''' None 30
       = (Inr None, [''Error fetching data: Not Found''])"
    using fetch_data_outcomes [of answering "''http://grid/''" "''''" None 30]
    by (simp add: answering_def request_url_def rstrip_slash_def)
  have 4: "fetch_data unreachable ''http://grid'' ''metrics'' None 30
       = (Inr None, [''Error fetching data: connection refused''])"
    using fetch_data_outcomes [of unreachable "''http://grid''" "''metrics''" None 30]
    by (simp add: unreachable_def network_or_decode_error_def)
  from 1 2 3 4 show ?thesis by simp
qed

end
